theory Spec2Isabelle
  imports Complex_Main
begin

section \<open>utils.ts: path and URL helpers\<close>

text \<open>
  JavaScript strings are modelled as \<open>string\<close>. The only character the helpers
  inspect is the separator \<open>/\<close>.

  \<open>path.replace(/\/\/+/, '/')\<close> has a regular expression without the global flag:
  the leftmost run of two or more slashes becomes one slash, the rest of the
  string is kept.
\<close>

fun replace_slash_run :: "string \<Rightarrow> string" where
  "replace_slash_run [] = []"
| "replace_slash_run [c] = [c]"
| "replace_slash_run (a # b # cs) =
     (if a = CHR ''/'' \<and> b = CHR ''/''
      then CHR ''/'' # dropWhile (\<lambda>c. c = CHR ''/'') cs
      else a # replace_slash_run (b # cs))"

text \<open>
  The \<open>for\<close> loop of \<open>urlPathJoin\<close>, with its index \<open>i\<close> and the accumulated
  \<open>url\<close>. The local \<open>path\<close> receives the collapsed segment when \<open>i > 0\<close>,
  and both appending branches read \<open>paths[i]\<close>, as the source does.
\<close>

function urlPathJoin_loop :: "string list \<Rightarrow> nat \<Rightarrow> string \<Rightarrow> string" where
  "urlPathJoin_loop paths i url =
     (if i < length paths then
        (let path = paths ! i in
         if path = [] then urlPathJoin_loop paths (i + 1) url
         else
           (let path = (if i > 0 then replace_slash_run path else path) in
            if length url > 0 \<and> last url \<noteq> CHR ''/''
            then urlPathJoin_loop paths (i + 1) (url @ ''/'' @ paths ! i)
            else urlPathJoin_loop paths (i + 1) (url @ paths ! i)))
      else url)"
  by pat_completeness auto
termination
  by (relation "measure (\<lambda>(paths, i, url). length paths - i)") auto

declare urlPathJoin_loop.simps [simp del]

definition urlPathJoin :: "string list \<Rightarrow> string" where
  "urlPathJoin paths = urlPathJoin_loop paths 0 []"

text \<open>
  \<open>String.prototype.split\<close> with a one-character separator and
  \<open>Array.prototype.join\<close>. Splitting never returns an empty array: the empty
  string splits into one empty piece.
\<close>

fun js_split :: "char \<Rightarrow> string \<Rightarrow> string list" where
  "js_split c [] = [[]]"
| "js_split c (x # xs) =
     (if x = c then [] # js_split c xs
      else (case js_split c xs of
              [] \<Rightarrow> [[x]]
            | piece # pieces \<Rightarrow> (x # piece) # pieces))"

fun js_join :: "string \<Rightarrow> string list \<Rightarrow> string" where
  "js_join sep [] = []"
| "js_join sep [x] = x"
| "js_join sep (x # y # ys) = x @ sep @ js_join sep (y # ys)"

text \<open>
  \<open>encodeURIComponent\<close> belongs to the host, not to this repository: every
  function that calls it takes it as the parameter \<open>enc\<close>.
\<close>

definition encodeURIComponents :: "(string \<Rightarrow> string) \<Rightarrow> string \<Rightarrow> string" where
  "encodeURIComponents enc uri = js_join ''/'' (map enc (js_split (CHR ''/'') uri))"

definition urlJoinEncode :: "(string \<Rightarrow> string) \<Rightarrow> string list \<Rightarrow> string" where
  "urlJoinEncode enc args = encodeURIComponents enc (urlPathJoin args)"

text \<open>
  The argument of \<open>jsonToQueryString\<close> is an object whose values are strings; it is
  the list of its own properties in the order of \<open>Object.keys\<close>.
\<close>

definition jsonToQueryString :: "(string \<Rightarrow> string) \<Rightarrow> (string \<times> string) list \<Rightarrow> string" where
  "jsonToQueryString enc json =
     ''?'' @ js_join ''&'' (map (\<lambda>(key, v). enc key @ ''='' @ enc v) json)"

section \<open>utils.ts: the transport wrapper\<close>

text \<open>
  JavaScript values as far as the client looks at them: \<open>any\<close> payloads are parsed
  JSON or a raw response string, and the operations without a result resolve
  with \<open>undefined\<close>.
\<close>

datatype jsval =
    JUndefined
  | JNull
  | JBool bool
  | JNumber real
  | JString string
  | JArray "jsval list"
  | JObject "(string \<times> jsval) list"

text \<open>The eventual state of a promise: it stays pending, or settles one way.\<close>

datatype ('a, 'r) promise = Pending | Fulfilled 'a | Rejected 'r

record IAjaxSettings =
  http_method :: string
  dataType :: string
  contentType :: "string option"
  settings_data :: "string option"

text \<open>
  What the handlers read of the \<open>XMLHttpRequest\<close> once its event has fired.
  \<open>req.response\<close> is a string, since the wrapper never sets a response type.
\<close>

record XMLHttpRequest =
  status :: nat
  xhr_statusText :: string
  response :: string

type_synonym ErrorEvent = string

record IAjaxSuccess =
  data :: jsval
  statusText :: string
  xhr :: XMLHttpRequest

record IAjaxError =
  error_xhr :: XMLHttpRequest
  error_statusText :: string
  error :: ErrorEvent

text \<open>
  What \<open>req.open\<close>, \<open>req.setRequestHeader\<close> and \<open>req.send\<close> hand to the network, and
  what the network answers: the \<open>load\<close> event, the \<open>error\<close> event, or neither.
\<close>

record request =
  req_method :: string
  req_url :: string
  req_contentType :: "string option"
  req_body :: "string option"

datatype xhr_event =
    Load XMLHttpRequest
  | NetError XMLHttpRequest ErrorEvent
  | NoEvent

text \<open>
  The host as \<open>ajaxRequest\<close> and the client use it. \<open>JSON.parse\<close> returns \<open>None\<close>
  where it throws a \<open>SyntaxError\<close>.
\<close>

record host =
  JSON_parse :: "string \<Rightarrow> jsval option"
  JSON_stringify :: "jsval \<Rightarrow> string"
  encodeURIComponent :: "string \<Rightarrow> string"
  network :: "request \<Rightarrow> xhr_event"

text \<open>JavaScript truthiness of an optional string: set and not empty.\<close>

fun truthy :: "string option \<Rightarrow> bool" where
  "truthy None = False"
| "truthy (Some s) = (s \<noteq> [])"

text \<open>
  \<open>req.onload\<close>: an exception of \<open>JSON.parse\<close> leaves the handler before
  \<open>resolve\<close> is called, so the promise stays pending.
\<close>

definition onload :: "host \<Rightarrow> IAjaxSettings \<Rightarrow> XMLHttpRequest \<Rightarrow> (IAjaxSuccess, IAjaxError) promise" where
  "onload h settings req =
     (if dataType settings = ''json'' \<and> response req \<noteq> [] then
        (case JSON_parse h (response req) of
           None \<Rightarrow> Pending
         | Some parsed \<Rightarrow>
             Fulfilled \<lparr>data = parsed, statusText = xhr_statusText req, xhr = req\<rparr>)
      else
        Fulfilled \<lparr>data = JString (response req), statusText = xhr_statusText req, xhr = req\<rparr>)"

definition onerror :: "XMLHttpRequest \<Rightarrow> ErrorEvent \<Rightarrow> (IAjaxSuccess, IAjaxError) promise" where
  "onerror req err =
     Rejected \<lparr>error_xhr = req, error_statusText = xhr_statusText req, error = err\<rparr>"

text \<open>
  \<open>req.open(settings.method, url)\<close>, the header set when \<open>settings.contentType\<close> is
  truthy, and \<open>req.send\<close> with the body when \<open>settings.data\<close> is truthy.
\<close>

definition xhr_send :: "string \<Rightarrow> IAjaxSettings \<Rightarrow> request" where
  "xhr_send url settings =
     \<lparr>req_method = http_method settings,
      req_url = url,
      req_contentType =
        (if truthy (contentType settings) then contentType settings else None),
      req_body =
        (if truthy (settings_data settings) then settings_data settings else None)\<rparr>"

definition ajaxRequest :: "host \<Rightarrow> string \<Rightarrow> IAjaxSettings \<Rightarrow> (IAjaxSuccess, IAjaxError) promise" where
  "ajaxRequest h url settings =
     (case network h (xhr_send url settings) of
        Load req \<Rightarrow> onload h settings req
      | NetError req err \<Rightarrow> onerror req err
      | NoEvent \<Rightarrow> Pending)"

section \<open>contents.ts: the contents client\<close>

text \<open>
  A promise of the client rejects with an \<open>Error\<close> carrying a message, or with
  the error outcome of the transport handed on unchanged.
\<close>

datatype rejection = Error string | Transport IAjaxError

text \<open>
  \<open>p.then(onFulfilled)\<close> and \<open>p.then(onFulfilled, onRejected)\<close> on a promise of the
  transport. A handler returns \<open>Inr\<close> its result or \<open>Inl\<close> what it throws. With
  one handler a rejection passes through; an exception of \<open>onFulfilled\<close> is
  never given to the \<open>onRejected\<close> of the same call.
\<close>

definition promise_then ::
  "('a, IAjaxError) promise \<Rightarrow> ('a \<Rightarrow> rejection + 'b) \<Rightarrow> ('b, rejection) promise" where
  "promise_then p onFulfilled =
     (case p of
        Pending \<Rightarrow> Pending
      | Fulfilled x \<Rightarrow> (case onFulfilled x of Inl e \<Rightarrow> Rejected e | Inr y \<Rightarrow> Fulfilled y)
      | Rejected r \<Rightarrow> Rejected (Transport r))"

definition promise_then2 ::
  "('a, IAjaxError) promise \<Rightarrow> ('a \<Rightarrow> rejection + 'b) \<Rightarrow> (IAjaxError \<Rightarrow> rejection + 'b)
     \<Rightarrow> ('b, rejection) promise" where
  "promise_then2 p onFulfilled onRejected =
     (case p of
        Pending \<Rightarrow> Pending
      | Fulfilled x \<Rightarrow> (case onFulfilled x of Inl e \<Rightarrow> Rejected e | Inr y \<Rightarrow> Fulfilled y)
      | Rejected r \<Rightarrow> (case onRejected r of Inl e \<Rightarrow> Rejected e | Inr y \<Rightarrow> Fulfilled y))"

text \<open>
  The module \<open>./validate\<close> is imported by the client and is not among the sources.
  Its two functions are parameters: \<open>None\<close> where the function returns, \<open>Some msg\<close>
  where it throws an \<open>Error\<close> with that message.
\<close>

record validate =
  validateContentsModel :: "jsval \<Rightarrow> string option"
  validateCheckpointModel :: "jsval \<Rightarrow> string option"

text \<open>The decimal digits of a status code, as \<open>'Invalid Status: ' + status\<close> appends them.\<close>

function string_of_nat :: "nat \<Rightarrow> string" where
  "string_of_nat n =
     (if n < 10 then [''0123456789'' ! n]
      else string_of_nat (n div 10) @ [''0123456789'' ! (n mod 10)])"
  by pat_completeness auto
termination
  by (relation "measure (\<lambda>n. n)") auto

declare string_of_nat.simps [simp del]

definition invalid_status :: "IAjaxSuccess \<Rightarrow> rejection" where
  "invalid_status success = Error (''Invalid Status: '' @ string_of_nat (status (xhr success)))"

definition SERVICE_CONTENTS_URL :: string where
  "SERVICE_CONTENTS_URL = ''api/contents''"

record IContentsOpts =
  type :: "string option"
  format :: "string option"
  content :: "jsval option"
  ext :: "string option"
  name :: "string option"

record Contents =
  apiUrl :: string

definition new_Contents :: "string \<Rightarrow> Contents" where
  "new_Contents baseUrl = \<lparr>apiUrl = urlPathJoin [baseUrl, SERVICE_CONTENTS_URL]\<rparr>"

definition getUrl :: "host \<Rightarrow> Contents \<Rightarrow> string list \<Rightarrow> string" where
  "getUrl h c args = urlPathJoin [apiUrl c, urlJoinEncode (encodeURIComponent h) args]"

text \<open>
  Each operation is written as the source has it: the statements that build the
  url and the settings (\<open>_request\<close>), the arrow function given to \<open>then\<close>
  (\<open>_onSuccess\<close>), and the call \<open>utils.ajaxRequest(url, settings).then(...)\<close>.
\<close>

subsection \<open>get and listContents\<close>

definition get_params :: "IContentsOpts \<Rightarrow> (string \<times> string) list" where
  "get_params options =
     (let params = [];
          params = (case type options of
                      Some t \<Rightarrow> if t \<noteq> [] then params @ [(''type'', t)] else params
                    | None \<Rightarrow> params);
          params = (case format options of
                      Some f \<Rightarrow> if f \<noteq> [] then params @ [(''format'', f)] else params
                    | None \<Rightarrow> params);
          params = (if content options = Some (JBool False)
                    then params @ [(''content'', ''0'')] else params)
      in params)"

definition get_request :: "host \<Rightarrow> Contents \<Rightarrow> string \<Rightarrow> IContentsOpts \<Rightarrow> string \<times> IAjaxSettings" where
  "get_request h c path options =
     (let settings = \<lparr>http_method = ''GET'', dataType = ''json'',
                      contentType = None, settings_data = None\<rparr>;
          url = getUrl h c [path];
          params = get_params options;
          url = url @ jsonToQueryString (encodeURIComponent h) params
      in (url, settings))"

definition get_onSuccess :: "validate \<Rightarrow> IAjaxSuccess \<Rightarrow> rejection + jsval" where
  "get_onSuccess v success =
     (if status (xhr success) \<noteq> 200 then Inl (invalid_status success)
      else (case validateContentsModel v (data success) of
              Some msg \<Rightarrow> Inl (Error msg)
            | None \<Rightarrow> Inr (data success)))"

definition get :: "host \<Rightarrow> validate \<Rightarrow> Contents \<Rightarrow> string \<Rightarrow> IContentsOpts \<Rightarrow> (jsval, rejection) promise" where
  "get h v c path options =
     (case get_request h c path options of
        (url, settings) \<Rightarrow> promise_then (ajaxRequest h url settings) (get_onSuccess v))"

definition listContents_options :: IContentsOpts where
  "listContents_options =
     \<lparr>type = Some ''directory'', format = None, content = None, ext = None, name = None\<rparr>"

definition listContents :: "host \<Rightarrow> validate \<Rightarrow> Contents \<Rightarrow> string \<Rightarrow> (jsval, rejection) promise" where
  "listContents h v c path = get h v c path listContents_options"

subsection \<open>newUntitled\<close>

fun optional :: "string option \<Rightarrow> jsval" where
  "optional None = JUndefined"
| "optional (Some s) = JString s"

definition newUntitled_request ::
  "host \<Rightarrow> Contents \<Rightarrow> string \<Rightarrow> IContentsOpts option \<Rightarrow> string \<times> IAjaxSettings" where
  "newUntitled_request h c path options =
     (let settings = \<lparr>http_method = ''POST'', dataType = ''json'',
                      contentType = None, settings_data = None\<rparr>;
          settings =
            (case options of
               None \<Rightarrow> settings
             | Some opts \<Rightarrow>
                 (let data = JSON_stringify h
                       (JObject [(''ext'', optional (ext opts)), (''type'', optional (type opts))])
                  in settings\<lparr>settings_data := Some data,
                              contentType := Some ''application/json''\<rparr>));
          url = getUrl h c [path]
      in (url, settings))"

definition newUntitled_onSuccess :: "validate \<Rightarrow> IAjaxSuccess \<Rightarrow> rejection + jsval" where
  "newUntitled_onSuccess v success =
     (if status (xhr success) \<noteq> 201 then Inl (invalid_status success)
      else (case validateContentsModel v (data success) of
              Some msg \<Rightarrow> Inl (Error msg)
            | None \<Rightarrow> Inr (data success)))"

definition newUntitled ::
  "host \<Rightarrow> validate \<Rightarrow> Contents \<Rightarrow> string \<Rightarrow> IContentsOpts option \<Rightarrow> (jsval, rejection) promise" where
  "newUntitled h v c path options =
     (case newUntitled_request h c path options of
        (url, settings) \<Rightarrow> promise_then (ajaxRequest h url settings) (newUntitled_onSuccess v))"

subsection \<open>delete\<close>

definition delete_request :: "host \<Rightarrow> Contents \<Rightarrow> string \<Rightarrow> string \<times> IAjaxSettings" where
  "delete_request h c path =
     (let settings = \<lparr>http_method = ''DELETE'', dataType = ''json'',
                      contentType = None, settings_data = None\<rparr>;
          url = getUrl h c [path]
      in (url, settings))"

definition delete_onSuccess :: "IAjaxSuccess \<Rightarrow> rejection + jsval" where
  "delete_onSuccess success =
     (if status (xhr success) \<noteq> 204 then Inl (invalid_status success)
      else Inr JUndefined)"

definition delete_onError :: "IAjaxError \<Rightarrow> rejection + jsval" where
  "delete_onError err =
     (if status (error_xhr err) = 400 then Inl (Error ''Directory not found'')
      else Inl (Error (xhr_statusText (error_xhr err))))"

definition delete :: "host \<Rightarrow> Contents \<Rightarrow> string \<Rightarrow> (jsval, rejection) promise" where
  "delete h c path =
     (case delete_request h c path of
        (url, settings) \<Rightarrow>
          promise_then2 (ajaxRequest h url settings) delete_onSuccess delete_onError)"

subsection \<open>rename, save and copy\<close>

definition rename_request :: "host \<Rightarrow> Contents \<Rightarrow> string \<Rightarrow> string \<Rightarrow> string \<times> IAjaxSettings" where
  "rename_request h c path newPath =
     (let data = JObject [(''path'', JString newPath)];
          settings = \<lparr>http_method = ''PATCH'', dataType = ''json'',
                      contentType = Some ''application/json'',
                      settings_data = Some (JSON_stringify h data)\<rparr>;
          url = getUrl h c [path]
      in (url, settings))"

definition rename_onSuccess :: "validate \<Rightarrow> IAjaxSuccess \<Rightarrow> rejection + jsval" where
  "rename_onSuccess v success =
     (if status (xhr success) \<noteq> 200 then Inl (invalid_status success)
      else (case validateContentsModel v (data success) of
              Some msg \<Rightarrow> Inl (Error msg)
            | None \<Rightarrow> Inr (data success)))"

definition rename ::
  "host \<Rightarrow> validate \<Rightarrow> Contents \<Rightarrow> string \<Rightarrow> string \<Rightarrow> (jsval, rejection) promise" where
  "rename h v c path newPath =
     (case rename_request h c path newPath of
        (url, settings) \<Rightarrow> promise_then (ajaxRequest h url settings) (rename_onSuccess v))"

definition save_request :: "host \<Rightarrow> Contents \<Rightarrow> string \<Rightarrow> jsval \<Rightarrow> string \<times> IAjaxSettings" where
  "save_request h c path model =
     (let settings = \<lparr>http_method = ''PUT'', dataType = ''json'',
                      contentType = Some ''application/json'',
                      settings_data = Some (JSON_stringify h model)\<rparr>;
          url = getUrl h c [path]
      in (url, settings))"

definition save_onSuccess :: "validate \<Rightarrow> IAjaxSuccess \<Rightarrow> rejection + jsval" where
  "save_onSuccess v success =
     (if status (xhr success) \<noteq> 200 \<and> status (xhr success) \<noteq> 201
      then Inl (invalid_status success)
      else (case validateContentsModel v (data success) of
              Some msg \<Rightarrow> Inl (Error msg)
            | None \<Rightarrow> Inr (data success)))"

definition save ::
  "host \<Rightarrow> validate \<Rightarrow> Contents \<Rightarrow> string \<Rightarrow> jsval \<Rightarrow> (jsval, rejection) promise" where
  "save h v c path model =
     (case save_request h c path model of
        (url, settings) \<Rightarrow> promise_then (ajaxRequest h url settings) (save_onSuccess v))"

definition copy_request :: "host \<Rightarrow> Contents \<Rightarrow> string \<Rightarrow> string \<Rightarrow> string \<times> IAjaxSettings" where
  "copy_request h c fromFile toDir =
     (let settings = \<lparr>http_method = ''POST'', dataType = ''json'',
                      contentType = Some ''application/json'',
                      settings_data =
                        Some (JSON_stringify h (JObject [(''copy_from'', JString fromFile)]))\<rparr>;
          url = getUrl h c [toDir]
      in (url, settings))"

definition copy_onSuccess :: "validate \<Rightarrow> IAjaxSuccess \<Rightarrow> rejection + jsval" where
  "copy_onSuccess v success =
     (if status (xhr success) \<noteq> 201 then Inl (invalid_status success)
      else (case validateContentsModel v (data success) of
              Some msg \<Rightarrow> Inl (Error msg)
            | None \<Rightarrow> Inr (data success)))"

definition copy ::
  "host \<Rightarrow> validate \<Rightarrow> Contents \<Rightarrow> string \<Rightarrow> string \<Rightarrow> (jsval, rejection) promise" where
  "copy h v c fromFile toDir =
     (case copy_request h c fromFile toDir of
        (url, settings) \<Rightarrow> promise_then (ajaxRequest h url settings) (copy_onSuccess v))"

subsection \<open>Checkpoints\<close>

definition createCheckpoint_request :: "host \<Rightarrow> Contents \<Rightarrow> string \<Rightarrow> string \<times> IAjaxSettings" where
  "createCheckpoint_request h c path =
     (let settings = \<lparr>http_method = ''POST'', dataType = ''json'',
                      contentType = None, settings_data = None\<rparr>;
          url = getUrl h c [path, ''checkpoints'']
      in (url, settings))"

definition createCheckpoint_onSuccess :: "validate \<Rightarrow> IAjaxSuccess \<Rightarrow> rejection + jsval" where
  "createCheckpoint_onSuccess v success =
     (if status (xhr success) \<noteq> 201 then Inl (invalid_status success)
      else (case validateCheckpointModel v (data success) of
              Some msg \<Rightarrow> Inl (Error msg)
            | None \<Rightarrow> Inr (data success)))"

definition createCheckpoint ::
  "host \<Rightarrow> validate \<Rightarrow> Contents \<Rightarrow> string \<Rightarrow> (jsval, rejection) promise" where
  "createCheckpoint h v c path =
     (case createCheckpoint_request h c path of
        (url, settings) \<Rightarrow>
          promise_then (ajaxRequest h url settings) (createCheckpoint_onSuccess v))"

definition listCheckpoints_request :: "host \<Rightarrow> Contents \<Rightarrow> string \<Rightarrow> string \<times> IAjaxSettings" where
  "listCheckpoints_request h c path =
     (let settings = \<lparr>http_method = ''GET'', dataType = ''json'',
                      contentType = None, settings_data = None\<rparr>;
          url = getUrl h c [path, ''checkpoints'']
      in (url, settings))"

text \<open>
  The \<open>for\<close> loop over \<open>success.data\<close>: the first element that the validator
  refuses ends the loop with its exception.
\<close>

fun validate_each :: "validate \<Rightarrow> jsval list \<Rightarrow> string option" where
  "validate_each v [] = None"
| "validate_each v (x # xs) =
     (case validateCheckpointModel v x of
        Some msg \<Rightarrow> Some msg
      | None \<Rightarrow> validate_each v xs)"

definition listCheckpoints_onSuccess :: "validate \<Rightarrow> IAjaxSuccess \<Rightarrow> rejection + jsval" where
  "listCheckpoints_onSuccess v success =
     (if status (xhr success) \<noteq> 200 then Inl (invalid_status success)
      else (case data success of
              JArray elems \<Rightarrow>
                (case validate_each v elems of
                   Some msg \<Rightarrow> Inl (Error msg)
                 | None \<Rightarrow> Inr (data success))
            | _ \<Rightarrow> Inl (Error ''Invalid Checkpoint list'')))"

definition listCheckpoints ::
  "host \<Rightarrow> validate \<Rightarrow> Contents \<Rightarrow> string \<Rightarrow> (jsval, rejection) promise" where
  "listCheckpoints h v c path =
     (case listCheckpoints_request h c path of
        (url, settings) \<Rightarrow>
          promise_then (ajaxRequest h url settings) (listCheckpoints_onSuccess v))"

definition restoreCheckpoint_request ::
  "host \<Rightarrow> Contents \<Rightarrow> string \<Rightarrow> string \<Rightarrow> string \<times> IAjaxSettings" where
  "restoreCheckpoint_request h c path checkpointID =
     (let settings = \<lparr>http_method = ''POST'', dataType = ''json'',
                      contentType = None, settings_data = None\<rparr>;
          url = getUrl h c [path, ''checkpoints'', checkpointID]
      in (url, settings))"

definition restoreCheckpoint_onSuccess :: "IAjaxSuccess \<Rightarrow> rejection + jsval" where
  "restoreCheckpoint_onSuccess success =
     (if status (xhr success) \<noteq> 204 then Inl (invalid_status success)
      else Inr JUndefined)"

definition restoreCheckpoint ::
  "host \<Rightarrow> Contents \<Rightarrow> string \<Rightarrow> string \<Rightarrow> (jsval, rejection) promise" where
  "restoreCheckpoint h c path checkpointID =
     (case restoreCheckpoint_request h c path checkpointID of
        (url, settings) \<Rightarrow>
          promise_then (ajaxRequest h url settings) restoreCheckpoint_onSuccess)"

definition deleteCheckpoint_request ::
  "host \<Rightarrow> Contents \<Rightarrow> string \<Rightarrow> string \<Rightarrow> string \<times> IAjaxSettings" where
  "deleteCheckpoint_request h c path checkpointID =
     (let settings = \<lparr>http_method = ''DELETE'', dataType = ''json'',
                      contentType = None, settings_data = None\<rparr>;
          url = getUrl h c [path, ''checkpoints'', checkpointID]
      in (url, settings))"

definition deleteCheckpoint_onSuccess :: "IAjaxSuccess \<Rightarrow> rejection + jsval" where
  "deleteCheckpoint_onSuccess success =
     (if status (xhr success) \<noteq> 204 then Inl (invalid_status success)
      else Inr JUndefined)"

definition deleteCheckpoint ::
  "host \<Rightarrow> Contents \<Rightarrow> string \<Rightarrow> string \<Rightarrow> (jsval, rejection) promise" where
  "deleteCheckpoint h c path checkpointID =
     (case deleteCheckpoint_request h c path checkpointID of
        (url, settings) \<Rightarrow>
          promise_then (ajaxRequest h url settings) deleteCheckpoint_onSuccess)"

subsection \<open>The interface IContents\<close>

text \<open>
  One constructor for each operation of the interface, so that a statement
  about every operation quantifies over calls. \<open>invoke\<close> runs the operation;
  \<open>transport\<close> is the promise of \<open>utils.ajaxRequest\<close> for the request that
  the operation builds.
\<close>

datatype call =
    Get string IContentsOpts
  | NewUntitled string "IContentsOpts option"
  | Delete string
  | Rename string string
  | Save string jsval
  | ListContents string
  | Copy string string
  | CreateCheckpoint string
  | RestoreCheckpoint string string
  | DeleteCheckpoint string string
  | ListCheckpoints string

fun invoke :: "host \<Rightarrow> validate \<Rightarrow> Contents \<Rightarrow> call \<Rightarrow> (jsval, rejection) promise" where
  "invoke h v c (Get path options) = get h v c path options"
| "invoke h v c (NewUntitled path options) = newUntitled h v c path options"
| "invoke h v c (Delete path) = delete h c path"
| "invoke h v c (Rename path newPath) = rename h v c path newPath"
| "invoke h v c (Save path model) = save h v c path model"
| "invoke h v c (ListContents path) = listContents h v c path"
| "invoke h v c (Copy fromFile toDir) = copy h v c fromFile toDir"
| "invoke h v c (CreateCheckpoint path) = createCheckpoint h v c path"
| "invoke h v c (RestoreCheckpoint path checkpointID) = restoreCheckpoint h c path checkpointID"
| "invoke h v c (DeleteCheckpoint path checkpointID) = deleteCheckpoint h c path checkpointID"
| "invoke h v c (ListCheckpoints path) = listCheckpoints h v c path"

fun request_of :: "host \<Rightarrow> Contents \<Rightarrow> call \<Rightarrow> string \<times> IAjaxSettings" where
  "request_of h c (Get path options) = get_request h c path options"
| "request_of h c (NewUntitled path options) = newUntitled_request h c path options"
| "request_of h c (Delete path) = delete_request h c path"
| "request_of h c (Rename path newPath) = rename_request h c path newPath"
| "request_of h c (Save path model) = save_request h c path model"
| "request_of h c (ListContents path) = get_request h c path listContents_options"
| "request_of h c (Copy fromFile toDir) = copy_request h c fromFile toDir"
| "request_of h c (CreateCheckpoint path) = createCheckpoint_request h c path"
| "request_of h c (RestoreCheckpoint path checkpointID) =
     restoreCheckpoint_request h c path checkpointID"
| "request_of h c (DeleteCheckpoint path checkpointID) =
     deleteCheckpoint_request h c path checkpointID"
| "request_of h c (ListCheckpoints path) = listCheckpoints_request h c path"

definition transport :: "host \<Rightarrow> Contents \<Rightarrow> call \<Rightarrow> (IAjaxSuccess, IAjaxError) promise" where
  "transport h c cl = (case request_of h c cl of (url, settings) \<Rightarrow> ajaxRequest h url settings)"

subsection \<open>The table of operations in the specification\<close>

text \<open>
  These three definitions follow the specification, not the source: the column
  "Success status" and the column "Returns" of its table of operations, and
  its validation gate. The theorems compare the source with them.
\<close>

fun spec_accepted :: "call \<Rightarrow> nat set" where
  "spec_accepted (Get path options) = {200}"
| "spec_accepted (ListContents path) = {200}"
| "spec_accepted (NewUntitled path options) = {201}"
| "spec_accepted (Save path model) = {200, 201}"
| "spec_accepted (Rename path newPath) = {200}"
| "spec_accepted (Copy fromFile toDir) = {201}"
| "spec_accepted (Delete path) = {204}"
| "spec_accepted (CreateCheckpoint path) = {201}"
| "spec_accepted (ListCheckpoints path) = {200}"
| "spec_accepted (RestoreCheckpoint path checkpointID) = {204}"
| "spec_accepted (DeleteCheckpoint path checkpointID) = {204}"

datatype shape = ContentItem | CheckpointRecord | CheckpointSequence | NoValue

fun spec_returns :: "call \<Rightarrow> shape" where
  "spec_returns (Get path options) = ContentItem"
| "spec_returns (ListContents path) = ContentItem"
| "spec_returns (NewUntitled path options) = ContentItem"
| "spec_returns (Save path model) = ContentItem"
| "spec_returns (Rename path newPath) = ContentItem"
| "spec_returns (Copy fromFile toDir) = ContentItem"
| "spec_returns (Delete path) = NoValue"
| "spec_returns (CreateCheckpoint path) = CheckpointRecord"
| "spec_returns (ListCheckpoints path) = CheckpointSequence"
| "spec_returns (RestoreCheckpoint path checkpointID) = NoValue"
| "spec_returns (DeleteCheckpoint path checkpointID) = NoValue"

fun passes :: "validate \<Rightarrow> shape \<Rightarrow> jsval \<Rightarrow> bool" where
  "passes v ContentItem d = (validateContentsModel v d = None)"
| "passes v CheckpointRecord d = (validateCheckpointModel v d = None)"
| "passes v CheckpointSequence d =
     (case d of
        JArray elems \<Rightarrow> list_all (\<lambda>x. validateCheckpointModel v x = None) elems
      | _ \<Rightarrow> False)"
| "passes v NoValue d = True"

section \<open>utils.ts: PromiseDelegate\<close>

text \<open>
  The class keeps a native promise and the two functions that the promise gave
  to its executor. The native promise belongs to the host. Its state is written
  here as the ECMAScript specification describes it: the flag shared by the two
  resolving functions, the thenable the promise has adopted and still waits
  for, the reactions that wait while the promise is pending, and the reaction
  jobs queued so far, each with the observer it runs and the outcome it passes.

  \<open>resolve(value?: T | Thenable<T>)\<close> takes any of three kinds of argument, which
  the resolving function of the host tells apart:
  \<^item> \<open>Value v\<close>: a value without a callable \<open>then\<close>; the promise is fulfilled
    with it at once.
  \<^item> \<open>Thenable report\<close>: an object with a callable \<open>then\<close>, such as another
    promise; the promise adopts it and stays pending until the thenable
    reports. \<open>report\<close> is what the thenable passes to the promise in the end,
    after any further adoption: a value, a reason, or \<open>Pending\<close> when it never
    calls back.
  \<^item> \<open>Abrupt r\<close>: the promise itself, or an object whose \<open>then\<close> getter throws;
    the promise is rejected at once, with the \<open>TypeError\<close> of the host or with
    what was thrown.
\<close>

datatype ('a, 'r) resolution =
    Value 'a
  | Thenable "('a, 'r) promise"
  | Abrupt 'r

record ('a, 'r, 'o) Promise =
  state :: "('a, 'r) promise"
  alreadyResolved :: bool
  adopted :: "('a, 'r) promise option"
  reactions :: "'o list"
  notified :: "('o \<times> ('a, 'r) promise) list"

definition new_Promise :: "('a, 'r, 'o) Promise" where
  "new_Promise =
     \<lparr>state = Pending, alreadyResolved = False, adopted = None, reactions = [], notified = []\<rparr>"

definition settle :: "('a, 'r) promise \<Rightarrow> ('a, 'r, 'o) Promise \<Rightarrow> ('a, 'r, 'o) Promise" where
  "settle outcome p =
     p\<lparr>state := outcome,
       reactions := [],
       notified := notified p @ map (\<lambda>obs. (obs, outcome)) (reactions p)\<rparr>"

definition resolve_function ::
  "('a, 'r) resolution \<Rightarrow> ('a, 'r, 'o) Promise \<Rightarrow> ('a, 'r, 'o) Promise" where
  "resolve_function resolution p =
     (if alreadyResolved p then p
      else
        (case resolution of
           Value v \<Rightarrow> settle (Fulfilled v) (p\<lparr>alreadyResolved := True\<rparr>)
         | Thenable report \<Rightarrow> p\<lparr>alreadyResolved := True, adopted := Some report\<rparr>
         | Abrupt r \<Rightarrow> settle (Rejected r) (p\<lparr>alreadyResolved := True\<rparr>)))"

definition reject_function :: "'r \<Rightarrow> ('a, 'r, 'o) Promise \<Rightarrow> ('a, 'r, 'o) Promise" where
  "reject_function r p =
     (if alreadyResolved p then p
      else settle (Rejected r) (p\<lparr>alreadyResolved := True\<rparr>))"

text \<open>
  The job in which an adopted thenable reports. The functions it calls have a
  flag of their own, so only its first report counts; a thenable that never
  calls back reports nothing.
\<close>

definition thenable_reports :: "('a, 'r, 'o) Promise \<Rightarrow> ('a, 'r, 'o) Promise" where
  "thenable_reports p =
     (case adopted p of
        None \<Rightarrow> p
      | Some Pending \<Rightarrow> p
      | Some outcome \<Rightarrow> settle outcome (p\<lparr>adopted := None\<rparr>))"

definition promise_observe :: "'o \<Rightarrow> ('a, 'r, 'o) Promise \<Rightarrow> ('a, 'r, 'o) Promise" where
  "promise_observe obs p =
     (case state p of
        Pending \<Rightarrow> p\<lparr>reactions := reactions p @ [obs]\<rparr>
      | _ \<Rightarrow> p\<lparr>notified := notified p @ [(obs, state p)]\<rparr>)"

text \<open>
  The private fields of the class, its constructor, the getter \<open>promise\<close> and the
  methods \<open>resolve\<close> and \<open>reject\<close>, which call the stored functions on the stored
  promise.
\<close>

record ('a, 'r, 'o) PromiseDelegate =
  priv_promise :: "('a, 'r, 'o) Promise"
  priv_resolve :: "('a, 'r) resolution \<Rightarrow> ('a, 'r, 'o) Promise \<Rightarrow> ('a, 'r, 'o) Promise"
  priv_reject :: "'r \<Rightarrow> ('a, 'r, 'o) Promise \<Rightarrow> ('a, 'r, 'o) Promise"

definition new_PromiseDelegate :: "('a, 'r, 'o) PromiseDelegate" where
  "new_PromiseDelegate =
     \<lparr>priv_promise = new_Promise,
      priv_resolve = resolve_function,
      priv_reject = reject_function\<rparr>"

definition resolve ::
  "('a, 'r) resolution \<Rightarrow> ('a, 'r, 'o) PromiseDelegate \<Rightarrow> ('a, 'r, 'o) PromiseDelegate" where
  "resolve v d = d\<lparr>priv_promise := priv_resolve d v (priv_promise d)\<rparr>"

definition reject :: "'r \<Rightarrow> ('a, 'r, 'o) PromiseDelegate \<Rightarrow> ('a, 'r, 'o) PromiseDelegate" where
  "reject r d = d\<lparr>priv_promise := priv_reject d r (priv_promise d)\<rparr>"

text \<open>
  What can happen to a delegate: a program calls \<open>resolve\<close>, calls \<open>reject\<close> or
  attaches an observer to \<open>delegate.promise\<close>, and the host runs the job of an
  adopted thenable.
\<close>

datatype ('a, 'r, 'o) action =
    Resolve "('a, 'r) resolution"
  | Reject 'r
  | Observe 'o
  | Callback

fun act :: "('a, 'r, 'o) PromiseDelegate \<Rightarrow> ('a, 'r, 'o) action \<Rightarrow> ('a, 'r, 'o) PromiseDelegate" where
  "act d (Resolve v) = resolve v d"
| "act d (Reject r) = reject r d"
| "act d (Observe obs) = d\<lparr>priv_promise := promise_observe obs (priv_promise d)\<rparr>"
| "act d Callback = d\<lparr>priv_promise := thenable_reports (priv_promise d)\<rparr>"

definition run :: "('a, 'r, 'o) PromiseDelegate \<Rightarrow> ('a, 'r, 'o) action list \<Rightarrow> ('a, 'r, 'o) PromiseDelegate" where
  "run d acts = foldl act d acts"

fun observers :: "('a, 'r, 'o) action list \<Rightarrow> 'o list" where
  "observers [] = []"
| "observers (Observe obs # acts) = obs # observers acts"
| "observers (_ # acts) = observers acts"

text \<open>
  The invocations of \<open>resolve\<close> and \<open>reject\<close> among the actions, the outcome that an
  invocation asks for, and whether it asks for it through a thenable.
\<close>

fun invocation :: "('a, 'r, 'o) action \<Rightarrow> bool" where
  "invocation (Resolve v) = True"
| "invocation (Reject r) = True"
| "invocation _ = False"

fun outcome :: "('a, 'r, 'o) action \<Rightarrow> ('a, 'r) promise" where
  "outcome (Resolve (Value v)) = Fulfilled v"
| "outcome (Resolve (Thenable report)) = report"
| "outcome (Resolve (Abrupt r)) = Rejected r"
| "outcome (Reject r) = Rejected r"
| "outcome _ = Pending"

fun adopts :: "('a, 'r, 'o) action \<Rightarrow> bool" where
  "adopts (Resolve (Thenable report)) = True"
| "adopts _ = False"

text \<open>
  The invocation \<open>first\<close> has settled the promise by the end of the actions
  \<open>later\<close>: it asks for an outcome, and when it does so through a thenable, the
  job of the thenable is among the later actions.
\<close>

definition settles :: "('a, 'r, 'o) action \<Rightarrow> ('a, 'r, 'o) action list \<Rightarrow> bool" where
  "settles first later \<longleftrightarrow>
     outcome first \<noteq> Pending \<and> (adopts first \<longrightarrow> Callback \<in> set later)"

text \<open>
  A delegate is locked once its promise has settled, and it follows a thenable
  while its promise waits for the report of that thenable. In both states the
  functions are those of the constructor and the flag is set.
\<close>

definition locked :: "('a, 'r, 'o) PromiseDelegate \<Rightarrow> bool" where
  "locked d \<longleftrightarrow>
     priv_resolve d = resolve_function \<and> priv_reject d = reject_function \<and>
     alreadyResolved (priv_promise d) \<and> adopted (priv_promise d) = None \<and>
     state (priv_promise d) \<noteq> Pending"

definition following :: "('a, 'r, 'o) PromiseDelegate \<Rightarrow> ('a, 'r) promise \<Rightarrow> bool" where
  "following d report \<longleftrightarrow>
     priv_resolve d = resolve_function \<and> priv_reject d = reject_function \<and>
     alreadyResolved (priv_promise d) \<and> adopted (priv_promise d) = Some report \<and>
     state (priv_promise d) = Pending"

definition idle :: "('a, 'r, 'o) PromiseDelegate \<Rightarrow> bool" where
  "idle d \<longleftrightarrow>
     priv_resolve d = resolve_function \<and> priv_reject d = reject_function \<and>
     \<not> alreadyResolved (priv_promise d) \<and> adopted (priv_promise d) = None \<and>
     state (priv_promise d) = Pending"

text \<open>
  The delegate \<open>d\<close> with further observers waiting, and the delegate \<open>d\<close> after
  its thenable has reported and everyone who waited, with further observers,
  has been told.
\<close>

definition waiting_for ::
  "('a, 'r, 'o) PromiseDelegate \<Rightarrow> 'o list \<Rightarrow> ('a, 'r, 'o) PromiseDelegate" where
  "waiting_for d extra =
     d\<lparr>priv_promise := (priv_promise d)\<lparr>reactions := reactions (priv_promise d) @ extra\<rparr>\<rparr>"

definition reported ::
  "('a, 'r, 'o) PromiseDelegate \<Rightarrow> ('a, 'r) promise \<Rightarrow> 'o list \<Rightarrow> ('a, 'r, 'o) PromiseDelegate" where
  "reported d report extra =
     d\<lparr>priv_promise := (priv_promise d)\<lparr>state := report, adopted := None, reactions := [],
         notified := notified (priv_promise d) @
           map (\<lambda>obs. (obs, report)) (reactions (priv_promise d) @ extra)\<rparr>\<rparr>"

section \<open>Concrete hosts and validators for the examples\<close>

text \<open>
  A host that answers every request with one event. Its \<open>JSON.parse\<close> knows
  three texts and throws on any other; its \<open>encodeURIComponent\<close> leaves its
  argument alone, as the real one does on letters, digits and dots.
\<close>

definition answering :: "xhr_event \<Rightarrow> host" where
  "answering ev =
     \<lparr>JSON_parse = (\<lambda>text. if text = ''{}'' then Some (JObject [])
                           else if text = ''[]'' then Some (JArray [])
                           else if text = ''[{}]'' then Some (JArray [JObject []])
                           else None),
      JSON_stringify = (\<lambda>j. ''{}''),
      encodeURIComponent = (\<lambda>text. text),
      network = (\<lambda>sent. ev)\<rparr>"

text \<open>Validators that pass every object and throw on any other value.\<close>

definition objects_only :: validate where
  "objects_only =
     \<lparr>validateContentsModel =
        (\<lambda>d. case d of JObject props \<Rightarrow> None | _ \<Rightarrow> Some ''Invalid Contents Model''),
      validateCheckpointModel =
        (\<lambda>d. case d of JObject props \<Rightarrow> None | _ \<Rightarrow> Some ''Invalid Checkpoint Model'')\<rparr>"

definition no_options :: IContentsOpts where
  "no_options = \<lparr>type = None, format = None, content = None, ext = None, name = None\<rparr>"

definition loaded :: "nat \<Rightarrow> string \<Rightarrow> string \<Rightarrow> XMLHttpRequest" where
  "loaded code text body = \<lparr>status = code, xhr_statusText = text, response = body\<rparr>"

section \<open>Properties of the path helpers\<close>

text \<open>
  C6. \<open>urlPathJoin\<close> computes the collapsed segment into its local \<open>path\<close> and then
  appends \<open>paths[i]\<close>, the segment as it was given. Joining \<open>a\<close> and \<open>//b\<close> keeps
  both slashes of the second segment after the separator: nothing is collapsed.
\<close>

theorem urlPathJoin_keeps_repeated_slashes:
  "urlPathJoin [''a'', ''//b''] = ''a///b''"
  by (simp add: urlPathJoin_def urlPathJoin_loop.simps)

text \<open>
  What the loop computes: every segment that is not empty is appended as it was
  given, after one separator when the url so far is not empty and does not end
  in a slash.
\<close>

lemma urlPathJoin_loop_foldl:
  "urlPathJoin_loop paths i url =
     foldl (\<lambda>url p. if p = [] then url
                     else if url \<noteq> [] \<and> last url \<noteq> CHR ''/'' then url @ ''/'' @ p
                     else url @ p) url (drop i paths)"
proof (induction paths i url rule: urlPathJoin_loop.induct)
  case (1 paths i url)
  show ?case
  proof (cases "i < length paths")
    case False
    then show ?thesis by (simp add: urlPathJoin_loop.simps [of paths i url])
  next
    case True
    then have d: "drop i paths = paths ! i # drop (Suc i) paths"
      by (simp add: Cons_nth_drop_Suc)
    from True "1.IH" show ?thesis
      by (subst urlPathJoin_loop.simps) (simp add: d Let_def)
  qed
qed

lemma urlPathJoin_examples:
  "urlPathJoin [''a/'', '''', ''b''] = ''a/b''"
  "urlPathJoin ['''', ''x''] = ''x''"
  "urlPathJoin [''a'', ''b''] = ''a/b''"
  by (simp_all add: urlPathJoin_def urlPathJoin_loop_foldl)
section \<open>Properties of the contents client\<close>

lemma validate_each_None:
  "(validate_each v xs = None) = list_all (\<lambda>x. validateCheckpointModel v x = None) xs"
  by (induction xs) (auto split: option.splits)

lemmas op_defs =
  get_def newUntitled_def delete_def rename_def save_def listContents_def copy_def
  createCheckpoint_def listCheckpoints_def restoreCheckpoint_def deleteCheckpoint_def

lemmas handler_defs =
  get_onSuccess_def newUntitled_onSuccess_def delete_onSuccess_def rename_onSuccess_def
  save_onSuccess_def copy_onSuccess_def createCheckpoint_onSuccess_def
  listCheckpoints_onSuccess_def restoreCheckpoint_onSuccess_def deleteCheckpoint_onSuccess_def

text \<open>Every operation is \<open>then\<close> on the promise of the transport, with its own handlers.\<close>

lemma invoke_then:
  "invoke h v c cl =
     (case cl of
        Get path options \<Rightarrow> promise_then (transport h c cl) (get_onSuccess v)
      | NewUntitled path options \<Rightarrow> promise_then (transport h c cl) (newUntitled_onSuccess v)
      | Delete path \<Rightarrow> promise_then2 (transport h c cl) delete_onSuccess delete_onError
      | Rename path newPath \<Rightarrow> promise_then (transport h c cl) (rename_onSuccess v)
      | Save path model \<Rightarrow> promise_then (transport h c cl) (save_onSuccess v)
      | ListContents path \<Rightarrow> promise_then (transport h c cl) (get_onSuccess v)
      | Copy fromFile toDir \<Rightarrow> promise_then (transport h c cl) (copy_onSuccess v)
      | CreateCheckpoint path \<Rightarrow> promise_then (transport h c cl) (createCheckpoint_onSuccess v)
      | RestoreCheckpoint path checkpointID \<Rightarrow>
          promise_then (transport h c cl) restoreCheckpoint_onSuccess
      | DeleteCheckpoint path checkpointID \<Rightarrow>
          promise_then (transport h c cl) deleteCheckpoint_onSuccess
      | ListCheckpoints path \<Rightarrow> promise_then (transport h c cl) (listCheckpoints_onSuccess v))"
  by (cases cl) (simp_all add: op_defs transport_def split: prod.splits)

text \<open>The transport of the example host, on a \<open>load\<close> event and on an \<open>error\<close> event.\<close>

lemma transport_answering_Load:
  "transport (answering (Load req)) c cl = onload (answering (Load req)) (snd (request_of (answering (Load req)) c cl)) req"
  by (simp add: transport_def ajaxRequest_def answering_def split: prod.splits)

lemma transport_answering_NetError:
  "transport (answering (NetError req err)) c cl = onerror req err"
  by (simp add: transport_def ajaxRequest_def answering_def split: prod.splits)

lemma dataType_request_of: "dataType (snd (request_of h c cl)) = ''json''"
  by (cases cl)
     (simp_all add: get_request_def newUntitled_request_def delete_request_def
        rename_request_def save_request_def copy_request_def createCheckpoint_request_def
        listCheckpoints_request_def restoreCheckpoint_request_def deleteCheckpoint_request_def
        Let_def split: option.splits)

lemma JSON_parse_answering:
  "JSON_parse (answering ev) ''{}'' = Some (JObject [])"
  "JSON_parse (answering ev) ''[]'' = Some (JArray [])"
  "JSON_parse (answering ev) ''[{}]'' = Some (JArray [JObject []])"
  by (simp_all add: answering_def)

lemma string_of_nat_examples:
  "string_of_nat 404 = ''404''"
  "string_of_nat 500 = ''500''"
  by (simp_all add: string_of_nat.simps)

text \<open>
  C1. For every operation that returns a model (get, listContents, newUntitled,
  save, rename, copy, createCheckpoint, listCheckpoints): when the transport
  succeeds, the status is one the operation accepts and the payload passes the
  validation of the shape the operation returns, the call resolves with the
  \<open>data\<close> of the transport outcome itself.
\<close>

theorem resolves_with_payload:
  assumes "transport h c cl = Fulfilled success"
    and "status (xhr success) \<in> spec_accepted cl"
    and "spec_returns cl \<noteq> NoValue"
    and "passes v (spec_returns cl) (data success)"
  shows "invoke h v c cl = Fulfilled (data success)"
  using assms
  by (cases cl)
     (auto simp: invoke_then promise_then_def handler_defs validate_each_None
           split: jsval.splits option.splits)

text \<open>
  The end-to-end example of the specification: \<open>save\<close> against a 201 response whose
  body is a valid model resolves with that model.
\<close>

theorem resolves_with_payload_witness:
  "transport (answering (Load (loaded 201 ''Created'' ''{}''))) (new_Contents [])
       (Save ''nb.ipynb'' (JObject []))
     = Fulfilled \<lparr>data = JObject [], statusText = ''Created'', xhr = loaded 201 ''Created'' ''{}''\<rparr>
   \<and> status (loaded 201 ''Created'' ''{}'') \<in> spec_accepted (Save ''nb.ipynb'' (JObject []))
   \<and> spec_returns (Save ''nb.ipynb'' (JObject [])) \<noteq> NoValue
   \<and> passes objects_only (spec_returns (Save ''nb.ipynb'' (JObject []))) (JObject [])
   \<and> invoke (answering (Load (loaded 201 ''Created'' ''{}''))) objects_only (new_Contents [])
       (Save ''nb.ipynb'' (JObject []))
     = Fulfilled (JObject [])"
proof -
  let ?h = "answering (Load (loaded 201 ''Created'' ''{}''))"
  let ?s = "\<lparr>data = JObject [], statusText = ''Created'', xhr = loaded 201 ''Created'' ''{}''\<rparr>"
  have t: "transport ?h (new_Contents []) (Save ''nb.ipynb'' (JObject [])) = Fulfilled ?s"
    by (simp add: transport_answering_Load onload_def save_request_def
          JSON_parse_answering loaded_def)
  have a: "status (xhr ?s) \<in> spec_accepted (Save ''nb.ipynb'' (JObject []))"
    by (simp add: loaded_def)
  have r: "spec_returns (Save ''nb.ipynb'' (JObject [])) \<noteq> NoValue"
    by simp
  have p: "passes objects_only (spec_returns (Save ''nb.ipynb'' (JObject []))) (data ?s)"
    by (simp add: objects_only_def)
  from resolves_with_payload [OF t a r p] t a r p show ?thesis
    by simp
qed

text \<open>
  C2. For every operation, when the transport succeeds with a status outside
  the accepted set of the operation (get, listContents, rename,
  listCheckpoints: 200; newUntitled, copy, createCheckpoint: 201; delete,
  restoreCheckpoint, deleteCheckpoint: 204; save: 200 or 201), the call rejects
  with the error \<open>Invalid Status\<close>, whatever the payload and the validators are.
  \<open>save\<close> resolves on status 200 and on status 201 when the payload is valid.
\<close>

theorem status_gate:
  "(transport h c cl = Fulfilled success \<and> status (xhr success) \<notin> spec_accepted cl
      \<longrightarrow> invoke h v c cl = Rejected (invalid_status success))
   \<and> (transport h c (Save path model) = Fulfilled saved
        \<and> (status (xhr saved) = 200 \<or> status (xhr saved) = 201)
        \<and> validateContentsModel v (data saved) = None
      \<longrightarrow> invoke h v c (Save path model) = Fulfilled (data saved))"
proof (intro conjI impI)
  assume "transport h c cl = Fulfilled success \<and> status (xhr success) \<notin> spec_accepted cl"
  then show "invoke h v c cl = Rejected (invalid_status success)"
    by (cases cl) (simp_all add: invoke_then promise_then_def promise_then2_def handler_defs)
next
  assume "transport h c (Save path model) = Fulfilled saved
        \<and> (status (xhr saved) = 200 \<or> status (xhr saved) = 201)
        \<and> validateContentsModel v (data saved) = None"
  then show "invoke h v c (Save path model) = Fulfilled (data saved)"
    by (auto simp: invoke_then promise_then_def save_onSuccess_def)
qed

text \<open>
  \<open>save\<close> against a 500 response with a valid body rejects with the status; against
  a 200 response with the same body it resolves.
\<close>

theorem status_gate_witness:
  "transport (answering (Load (loaded 500 ''Server Error'' ''{}''))) (new_Contents [])
       (Save ''nb.ipynb'' (JObject []))
     = Fulfilled \<lparr>data = JObject [], statusText = ''Server Error'',
                  xhr = loaded 500 ''Server Error'' ''{}''\<rparr>
   \<and> status (loaded 500 ''Server Error'' ''{}'') \<notin> spec_accepted (Save ''nb.ipynb'' (JObject []))
   \<and> invoke (answering (Load (loaded 500 ''Server Error'' ''{}''))) objects_only (new_Contents [])
       (Save ''nb.ipynb'' (JObject []))
     = Rejected (Error ''Invalid Status: 500'')
   \<and> transport (answering (Load (loaded 500 ''Server Error'' ''{}''))) (new_Contents [])
       (Save ''nb.ipynb'' (JObject []))
     = Fulfilled \<lparr>data = JObject [], statusText = ''Server Error'',
                  xhr = loaded 500 ''Server Error'' ''{}''\<rparr>
   \<and> transport (answering (Load (loaded 200 ''OK'' ''{}''))) (new_Contents [])
       (Save ''nb.ipynb'' (JObject []))
     = Fulfilled \<lparr>data = JObject [], statusText = ''OK'', xhr = loaded 200 ''OK'' ''{}''\<rparr>
   \<and> validateContentsModel objects_only (JObject []) = None
   \<and> invoke (answering (Load (loaded 200 ''OK'' ''{}''))) objects_only (new_Contents [])
       (Save ''nb.ipynb'' (JObject []))
     = Fulfilled (JObject [])"
proof -
  let ?bad = "answering (Load (loaded 500 ''Server Error'' ''{}''))"
  let ?good = "answering (Load (loaded 200 ''OK'' ''{}''))"
  let ?s = "\<lparr>data = JObject [], statusText = ''Server Error'',
             xhr = loaded 500 ''Server Error'' ''{}''\<rparr>"
  let ?t = "\<lparr>data = JObject [], statusText = ''OK'', xhr = loaded 200 ''OK'' ''{}''\<rparr>"
  have bad: "transport ?bad (new_Contents []) (Save ''nb.ipynb'' (JObject [])) = Fulfilled ?s"
    by (simp add: transport_answering_Load onload_def save_request_def
          JSON_parse_answering loaded_def)
  have good: "transport ?good (new_Contents []) (Save ''nb.ipynb'' (JObject [])) = Fulfilled ?t"
    by (simp add: transport_answering_Load onload_def save_request_def
          JSON_parse_answering loaded_def)
  have out: "status (xhr ?s) \<notin> spec_accepted (Save ''nb.ipynb'' (JObject []))"
    by (simp add: loaded_def)
  have ok: "status (xhr ?t) = 200" "validateContentsModel objects_only (data ?t) = None"
    by (simp_all add: loaded_def objects_only_def)
  have msg: "invalid_status ?s = Error ''Invalid Status: 500''"
    by (simp add: invalid_status_def loaded_def string_of_nat_examples)
  from status_gate [of ?bad "new_Contents []" "Save ''nb.ipynb'' (JObject [])" ?s objects_only
      "''nb.ipynb''" "JObject []" ?t] bad out
  have rej: "invoke ?bad objects_only (new_Contents []) (Save ''nb.ipynb'' (JObject []))
      = Rejected (invalid_status ?s)"
    by blast
  from status_gate [of ?good "new_Contents []" "Save ''nb.ipynb'' (JObject [])" ?s objects_only
      "''nb.ipynb''" "JObject []" ?t] good ok
  have res: "invoke ?good objects_only (new_Contents []) (Save ''nb.ipynb'' (JObject []))
      = Fulfilled (data ?t)"
    by blast
  from rej res bad good out ok msg show ?thesis
    by simp
qed
text \<open>
  C3. For every operation that returns a model: when the status is accepted and
  the payload does not pass the validation of the returned shape, the call
  rejects with an error. Whenever a call resolves, the value it resolves with
  passes that validation, so no operation hands out a model that was not
  validated.
\<close>

theorem validation_gate:
  "(transport h c cl = Fulfilled success \<and> status (xhr success) \<in> spec_accepted cl
      \<and> \<not> passes v (spec_returns cl) (data success)
      \<longrightarrow> (\<exists>msg. invoke h v c cl = Rejected (Error msg)))
   \<and> (invoke h v c cl = Fulfilled d \<longrightarrow> passes v (spec_returns cl) d)"
proof (intro conjI impI)
  assume "transport h c cl = Fulfilled success \<and> status (xhr success) \<in> spec_accepted cl
      \<and> \<not> passes v (spec_returns cl) (data success)"
  then show "\<exists>msg. invoke h v c cl = Rejected (Error msg)"
    by (cases cl)
       (auto simp: invoke_then promise_then_def handler_defs validate_each_None
             split: jsval.splits option.splits)
next
  assume "invoke h v c cl = Fulfilled d"
  then show "passes v (spec_returns cl) d"
    by (cases cl)
       (auto simp: invoke_then promise_then_def promise_then2_def handler_defs
               validate_each_None delete_onError_def
             split: jsval.splits option.splits promise.splits if_splits)
qed

text \<open>
  \<open>get\<close> against a 200 response whose body is an array, which the validator of
  content models refuses, rejects; against a 200 response whose body is an
  object it resolves with a value that passes.
\<close>

theorem validation_gate_witness:
  "transport (answering (Load (loaded 200 ''OK'' ''[]''))) (new_Contents [])
       (Get ''nb.ipynb'' no_options)
     = Fulfilled \<lparr>data = JArray [], statusText = ''OK'', xhr = loaded 200 ''OK'' ''[]''\<rparr>
   \<and> status (loaded 200 ''OK'' ''[]'') \<in> spec_accepted (Get ''nb.ipynb'' no_options)
   \<and> \<not> passes objects_only (spec_returns (Get ''nb.ipynb'' no_options)) (JArray [])
   \<and> (\<exists>msg. invoke (answering (Load (loaded 200 ''OK'' ''[]''))) objects_only (new_Contents [])
         (Get ''nb.ipynb'' no_options) = Rejected (Error msg))
   \<and> invoke (answering (Load (loaded 200 ''OK'' ''{}''))) objects_only (new_Contents [])
         (Get ''nb.ipynb'' no_options) = Fulfilled (JObject [])
   \<and> passes objects_only (spec_returns (Get ''nb.ipynb'' no_options)) (JObject [])"
proof -
  let ?bad = "answering (Load (loaded 200 ''OK'' ''[]''))"
  let ?good = "answering (Load (loaded 200 ''OK'' ''{}''))"
  let ?cl = "Get ''nb.ipynb'' no_options"
  let ?s = "\<lparr>data = JArray [], statusText = ''OK'', xhr = loaded 200 ''OK'' ''[]''\<rparr>"
  have t: "transport ?bad (new_Contents []) ?cl = Fulfilled ?s"
    by (simp add: transport_answering_Load onload_def get_request_def
          JSON_parse_answering loaded_def)
  have a: "status (xhr ?s) \<in> spec_accepted ?cl"
    by (simp add: loaded_def)
  have n: "\<not> passes objects_only (spec_returns ?cl) (data ?s)"
    by (simp add: objects_only_def)
  from validation_gate [of ?bad "new_Contents []" ?cl ?s objects_only] t a n
  have rej: "\<exists>msg. invoke ?bad objects_only (new_Contents []) ?cl = Rejected (Error msg)"
    by blast
  have res: "invoke ?good objects_only (new_Contents []) ?cl = Fulfilled (JObject [])"
    by (simp add: invoke_then transport_answering_Load onload_def get_request_def
          JSON_parse_answering loaded_def promise_then_def get_onSuccess_def objects_only_def)
  from validation_gate [of ?good "new_Contents []" ?cl _ objects_only "JObject []"] res
  have "passes objects_only (spec_returns ?cl) (JObject [])"
    by blast
  with rej res t a n show ?thesis
    by simp
qed

text \<open>The rejection of the transport carries the status text of its request twice.\<close>

lemma ajaxRequest_Rejected:
  "ajaxRequest h url settings = Rejected err \<Longrightarrow>
   error_statusText err = xhr_statusText (error_xhr err)"
  by (auto simp: ajaxRequest_def onload_def onerror_def
           split: xhr_event.splits option.splits if_splits)

lemma transport_Rejected:
  "transport h c cl = Rejected err \<Longrightarrow> error_statusText err = xhr_statusText (error_xhr err)"
  by (auto simp: transport_def split: prod.splits dest: ajaxRequest_Rejected)

text \<open>
  C4. \<open>delete\<close> turns a failure of the transport whose status is 400 into the
  error \<open>Directory not found\<close>, and a failure with any other status into an error
  whose message is the status text of the transport. Every other operation
  rejects with the failure of the transport as it is.
\<close>

theorem delete_error_translation:
  "(transport h c (Delete path) = Rejected err \<longrightarrow>
      invoke h v c (Delete path) =
        Rejected (Error (if status (error_xhr err) = 400 then ''Directory not found''
                         else error_statusText err)))
   \<and> ((\<forall>p. cl \<noteq> Delete p) \<and> transport h c cl = Rejected err' \<longrightarrow>
        invoke h v c cl = Rejected (Transport err'))"
proof (intro conjI impI)
  assume r: "transport h c (Delete path) = Rejected err"
  from transport_Rejected [OF r] r
  show "invoke h v c (Delete path) =
        Rejected (Error (if status (error_xhr err) = 400 then ''Directory not found''
                         else error_statusText err))"
    by (simp add: invoke_then promise_then2_def delete_onError_def)
next
  assume "(\<forall>p. cl \<noteq> Delete p) \<and> transport h c cl = Rejected err'"
  then show "invoke h v c cl = Rejected (Transport err')"
    by (cases cl) (simp_all add: invoke_then promise_then_def)
qed

text \<open>
  A transport failure with status 400, one with status 0, and the same failure
  under \<open>get\<close>.
\<close>

theorem delete_error_translation_witness:
  "transport (answering (NetError (loaded 400 ''Bad Request'' []) ''error'')) (new_Contents [])
       (Delete ''dir'')
     = Rejected \<lparr>error_xhr = loaded 400 ''Bad Request'' [],
                 error_statusText = ''Bad Request'', error = ''error''\<rparr>
   \<and> invoke (answering (NetError (loaded 400 ''Bad Request'' []) ''error'')) objects_only
       (new_Contents []) (Delete ''dir'')
     = Rejected (Error ''Directory not found'')
   \<and> invoke (answering (NetError (loaded 0 ''offline'' []) ''error'')) objects_only
       (new_Contents []) (Delete ''dir'')
     = Rejected (Error ''offline'')
   \<and> (\<forall>p. Get ''dir'' no_options \<noteq> Delete p)
   \<and> invoke (answering (NetError (loaded 0 ''offline'' []) ''error'')) objects_only
       (new_Contents []) (Get ''dir'' no_options)
     = Rejected (Transport \<lparr>error_xhr = loaded 0 ''offline'' [],
                            error_statusText = ''offline'', error = ''error''\<rparr>)"
proof -
  let ?h400 = "answering (NetError (loaded 400 ''Bad Request'' []) ''error'')"
  let ?h0 = "answering (NetError (loaded 0 ''offline'' []) ''error'')"
  let ?e400 = "\<lparr>error_xhr = loaded 400 ''Bad Request'' [],
                 error_statusText = ''Bad Request'', error = ''error''\<rparr>"
  let ?e0 = "\<lparr>error_xhr = loaded 0 ''offline'' [],
               error_statusText = ''offline'', error = ''error''\<rparr>"
  have t400: "transport ?h400 (new_Contents []) (Delete ''dir'') = Rejected ?e400"
    by (simp add: transport_answering_NetError onerror_def loaded_def)
  have t0: "transport ?h0 (new_Contents []) (Delete ''dir'') = Rejected ?e0"
    by (simp add: transport_answering_NetError onerror_def loaded_def)
  have g0: "transport ?h0 (new_Contents []) (Get ''dir'' no_options) = Rejected ?e0"
    by (simp add: transport_answering_NetError onerror_def loaded_def)
  have other: "\<forall>p. Get ''dir'' no_options \<noteq> Delete p"
    by simp
  from delete_error_translation [of ?h400 "new_Contents []" "''dir''" ?e400 objects_only] t400
  have a: "invoke ?h400 objects_only (new_Contents []) (Delete ''dir'')
      = Rejected (Error ''Directory not found'')"
    by (simp add: loaded_def)
  from delete_error_translation [of ?h0 "new_Contents []" "''dir''" ?e0 objects_only] t0
  have b: "invoke ?h0 objects_only (new_Contents []) (Delete ''dir'') = Rejected (Error ''offline'')"
    by (simp add: loaded_def)
  from delete_error_translation [of ?h0 "new_Contents []" "''dir''" ?e0 objects_only
      "Get ''dir'' no_options" ?e0] g0 other
  have c: "invoke ?h0 objects_only (new_Contents []) (Get ''dir'' no_options)
      = Rejected (Transport ?e0)"
    by blast
  from a b c t400 other show ?thesis
    by simp
qed

text \<open>
  C5. On a response with status 200, \<open>listCheckpoints\<close> rejects with
  \<open>Invalid Checkpoint list\<close> when the payload is not an array, whatever the
  validator of checkpoints says of the payload itself. When the payload is an
  array, the call resolves with it if every element passes the validator, and
  rejects otherwise.
\<close>

theorem listCheckpoints_sequence:
  assumes "transport h c (ListCheckpoints path) = Fulfilled success"
    and "status (xhr success) = 200"
  shows "((\<forall>elems. data success \<noteq> JArray elems) \<longrightarrow>
            listCheckpoints h v c path = Rejected (Error ''Invalid Checkpoint list''))
       \<and> (data success = JArray elems \<longrightarrow>
            (if list_all (\<lambda>x. validateCheckpointModel v x = None) elems
             then listCheckpoints h v c path = Fulfilled (data success)
             else (\<exists>msg. listCheckpoints h v c path = Rejected (Error msg))))"
proof -
  have run: "listCheckpoints h v c path =
      (case listCheckpoints_onSuccess v success of Inl e \<Rightarrow> Rejected e | Inr y \<Rightarrow> Fulfilled y)"
    using assms(1) invoke_then [of h v c "ListCheckpoints path"]
    by (simp add: promise_then_def)
  show ?thesis
  proof (cases "data success")
    case (JArray found)
    then show ?thesis
      using assms(2)
      by (cases "validate_each v found")
         (auto simp: run listCheckpoints_onSuccess_def validate_each_None [symmetric])
  qed (simp_all add: run listCheckpoints_onSuccess_def assms(2))
qed

text \<open>
  A single object that the validator of checkpoints accepts is refused as a
  list; an array of one such object is returned.
\<close>

theorem listCheckpoints_sequence_witness:
  "transport (answering (Load (loaded 200 ''OK'' ''{}''))) (new_Contents [])
       (ListCheckpoints ''nb.ipynb'')
     = Fulfilled \<lparr>data = JObject [], statusText = ''OK'', xhr = loaded 200 ''OK'' ''{}''\<rparr>
   \<and> status (loaded 200 ''OK'' ''{}'') = 200
   \<and> validateCheckpointModel objects_only (JObject []) = None
   \<and> (\<forall>elems. JObject [] \<noteq> JArray elems)
   \<and> listCheckpoints (answering (Load (loaded 200 ''OK'' ''{}''))) objects_only (new_Contents [])
       ''nb.ipynb''
     = Rejected (Error ''Invalid Checkpoint list'')
   \<and> transport (answering (Load (loaded 200 ''OK'' ''[{}]''))) (new_Contents [])
       (ListCheckpoints ''nb.ipynb'')
     = Fulfilled \<lparr>data = JArray [JObject []], statusText = ''OK'',
                  xhr = loaded 200 ''OK'' ''[{}]''\<rparr>
   \<and> list_all (\<lambda>x. validateCheckpointModel objects_only x = None) [JObject []]
   \<and> listCheckpoints (answering (Load (loaded 200 ''OK'' ''[{}]''))) objects_only
       (new_Contents []) ''nb.ipynb''
     = Fulfilled (JArray [JObject []])"
proof -
  let ?one = "answering (Load (loaded 200 ''OK'' ''{}''))"
  let ?many = "answering (Load (loaded 200 ''OK'' ''[{}]''))"
  let ?s = "\<lparr>data = JObject [], statusText = ''OK'', xhr = loaded 200 ''OK'' ''{}''\<rparr>"
  let ?t = "\<lparr>data = JArray [JObject []], statusText = ''OK'', xhr = loaded 200 ''OK'' ''[{}]''\<rparr>"
  have one: "transport ?one (new_Contents []) (ListCheckpoints ''nb.ipynb'') = Fulfilled ?s"
    by (simp add: transport_answering_Load onload_def listCheckpoints_request_def
          JSON_parse_answering loaded_def)
  have many: "transport ?many (new_Contents []) (ListCheckpoints ''nb.ipynb'') = Fulfilled ?t"
    by (simp add: transport_answering_Load onload_def listCheckpoints_request_def
          JSON_parse_answering loaded_def)
  have st: "status (xhr ?s) = 200" "status (xhr ?t) = 200"
    by (simp_all add: loaded_def)
  have valid: "validateCheckpointModel objects_only (JObject []) = None"
    by (simp add: objects_only_def)
  from listCheckpoints_sequence [OF one st(1), where v = objects_only]
  have a: "listCheckpoints ?one objects_only (new_Contents []) ''nb.ipynb''
      = Rejected (Error ''Invalid Checkpoint list'')"
    by simp
  from listCheckpoints_sequence [OF many st(2), where v = objects_only and elems = "[JObject []]"] valid
  have b: "listCheckpoints ?many objects_only (new_Contents []) ''nb.ipynb''
      = Fulfilled (JArray [JObject []])"
    by simp
  from a b one many st valid show ?thesis
    by simp
qed

section \<open>Properties of the request of get\<close>

lemma get_params_eq:
  "get_params options =
     (if truthy (type options) then [(''type'', the (type options))] else []) @
     (if truthy (format options) then [(''format'', the (format options))] else []) @
     (if content options = Some (JBool False) then [(''content'', ''0'')] else [])"
  by (cases "type options"; cases "format options") (simp_all add: get_params_def)

lemma apiUrl_new_Contents: "apiUrl (new_Contents []) = ''api/contents''"
  by (simp add: new_Contents_def SERVICE_CONTENTS_URL_def urlPathJoin_def urlPathJoin_loop_foldl)

lemma encodeURIComponent_answering: "encodeURIComponent (answering ev) = (\<lambda>text. text)"
  by (simp add: answering_def)

lemma getUrl_example:
  "getUrl (answering ev) (new_Contents []) [''nb.ipynb''] = ''api/contents/nb.ipynb''"
  by (simp add: getUrl_def apiUrl_new_Contents urlJoinEncode_def encodeURIComponents_def
        urlPathJoin_def urlPathJoin_loop_foldl encodeURIComponent_answering)

text \<open>
  C7, as the claim states it, fails on options whose \<open>type\<close> is set to the empty
  string: the field is set, and the query string of the request is the bare
  question mark.
\<close>

theorem get_query_counterexample:
  "type (no_options\<lparr>type := Some []\<rparr>) \<noteq> None
   \<and> fst (get_request (answering NoEvent) (new_Contents []) ''nb.ipynb''
            (no_options\<lparr>type := Some []\<rparr>))
      = ''api/contents/nb.ipynb?''"
  by (simp add: get_request_def getUrl_example get_params_eq jsonToQueryString_def no_options_def)

text \<open>
  C7, amended. The url of \<open>get\<close> is the url of the path followed by the query
  string of the parameters. The parameters hold \<open>type\<close> exactly when
  \<open>options.type\<close> is set to a string that is not empty, \<open>format\<close> exactly when
  \<open>options.format\<close> is set to a string that is not empty, each with the value of
  the option, and \<open>content\<close> with the value \<open>0\<close> exactly when \<open>options.content\<close> is
  the value \<open>false\<close>. They hold no other key, and no key twice.
\<close>

theorem get_query_fields:
  "fst (get_request h c path options) =
      getUrl h c [path] @ jsonToQueryString (encodeURIComponent h) (get_params options)
   \<and> map_of (get_params options) ''type'' =
        (if truthy (type options) then type options else None)
   \<and> map_of (get_params options) ''format'' =
        (if truthy (format options) then format options else None)
   \<and> map_of (get_params options) ''content'' =
        (if content options = Some (JBool False) then Some ''0'' else None)
   \<and> (\<forall>key. key \<notin> {''type'', ''format'', ''content''} \<longrightarrow>
         map_of (get_params options) key = None)
   \<and> distinct (map fst (get_params options))"
proof -
  have url: "fst (get_request h c path options) =
      getUrl h c [path] @ jsonToQueryString (encodeURIComponent h) (get_params options)"
    by (simp add: get_request_def)
  have keys: "map_of (get_params options) ''type'' =
        (if truthy (type options) then type options else None)
   \<and> map_of (get_params options) ''format'' =
        (if truthy (format options) then format options else None)
   \<and> map_of (get_params options) ''content'' =
        (if content options = Some (JBool False) then Some ''0'' else None)"
    by (cases "type options"; cases "format options") (simp_all add: get_params_eq)
  have others: "\<forall>key. key \<notin> {''type'', ''format'', ''content''} \<longrightarrow>
         map_of (get_params options) key = None"
    by (simp add: get_params_eq)
  have "distinct (map fst (get_params options))"
    by (simp add: get_params_eq)
  with url keys others show ?thesis
    by simp
qed

text \<open>All three parameters set, and the key \<open>ext\<close>, which \<open>get\<close> never sends.\<close>

theorem get_query_fields_witness:
  "fst (get_request (answering NoEvent) (new_Contents []) ''nb.ipynb''
         \<lparr>type = Some ''file'', format = Some ''text'', content = Some (JBool False),
          ext = Some ''.txt'', name = None\<rparr>)
     = ''api/contents/nb.ipynb?type=file&format=text&content=0''
   \<and> ''ext'' \<notin> {''type'', ''format'', ''content''}
   \<and> map_of (get_params
         \<lparr>type = Some ''file'', format = Some ''text'', content = Some (JBool False),
          ext = Some ''.txt'', name = None\<rparr>) ''ext'' = None"
proof -
  let ?options = "\<lparr>type = Some ''file'', format = Some ''text'', content = Some (JBool False),
          ext = Some ''.txt'', name = None\<rparr>"
  note fields = get_query_fields [of "answering NoEvent" "new_Contents []" "''nb.ipynb''" ?options]
  have params: "get_params ?options =
      [(''type'', ''file''), (''format'', ''text''), (''content'', ''0'')]"
    by (simp add: get_params_def)
  have other: "''ext'' \<notin> {''type'', ''format'', ''content''}"
    by simp
  from fields have "fst (get_request (answering NoEvent) (new_Contents []) ''nb.ipynb'' ?options)
      = ''api/contents/nb.ipynb?type=file&format=text&content=0''"
    by (simp add: getUrl_example params jsonToQueryString_def encodeURIComponent_answering)
  moreover from fields other have "map_of (get_params ?options) ''ext'' = None"
    by (elim conjE allE [of _ "''ext''"] impE)
  ultimately show ?thesis
    using other by simp
qed

text \<open>
  The delegation of \<open>listContents\<close> sets \<open>type\<close>: its url carries the one
  parameter \<open>type=directory\<close> and does not end in the question mark.
\<close>

lemma listContents_url_example:
  "fst (request_of (answering NoEvent) (new_Contents []) (ListContents ''nb.ipynb''))
     = ''api/contents/nb.ipynb?type=directory''
   \<and> last (fst (request_of (answering NoEvent) (new_Contents []) (ListContents ''nb.ipynb'')))
     \<noteq> CHR ''?''"
  by (simp add: get_request_def getUrl_example get_params_def listContents_options_def
        jsonToQueryString_def encodeURIComponent_answering)

text \<open>
  C9. The query string of no parameters is the single character \<open>?\<close>, and \<open>get\<close>
  always appends a query string. So for every call of \<open>get\<close> where none of
  \<open>type\<close>, \<open>format\<close> and \<open>content === false\<close> is set, as in a plain \<open>get\<close> with
  empty options, the url of the request is the url of the path followed by the
  bare \<open>?\<close>, with no parameter after it. An option that is not set is not
  truthy, so the condition of the theorem holds in all these calls. The
  delegation of \<open>listContents\<close> adds \<open>type=directory\<close> as its one parameter.
\<close>

theorem get_bare_question_mark:
  "jsonToQueryString enc [] = ''?''
   \<and> (\<not> truthy (type options) \<and> \<not> truthy (format options)
        \<and> content options \<noteq> Some (JBool False)
        \<longrightarrow> fst (get_request h c path options) = getUrl h c [path] @ ''?'')
   \<and> fst (request_of h c (ListContents path)) =
        getUrl h c [path] @ ''?'' @
          encodeURIComponent h ''type'' @ ''='' @ encodeURIComponent h ''directory''"
  by (simp add: get_request_def get_params_eq jsonToQueryString_def listContents_options_def)

text \<open>A plain \<open>get\<close> with empty options.\<close>

theorem get_bare_question_mark_witness:
  "\<not> truthy (type no_options) \<and> \<not> truthy (format no_options)
   \<and> content no_options \<noteq> Some (JBool False)
   \<and> fst (get_request (answering NoEvent) (new_Contents []) ''nb.ipynb'' no_options)
     = ''api/contents/nb.ipynb?''"
proof -
  have unset: "\<not> truthy (type no_options) \<and> \<not> truthy (format no_options)
      \<and> content no_options \<noteq> Some (JBool False)"
    by (simp add: no_options_def)
  with get_bare_question_mark [of "\<lambda>text. text" no_options "answering NoEvent"
      "new_Contents []" "''nb.ipynb''"]
  have "fst (get_request (answering NoEvent) (new_Contents []) ''nb.ipynb'' no_options)
      = getUrl (answering NoEvent) (new_Contents []) [''nb.ipynb''] @ ''?''"
    by simp
  with unset show ?thesis
    by (simp add: getUrl_example)
qed

section \<open>Properties of the transport wrapper\<close>

text \<open>
  C10. On the \<open>load\<close> event, \<open>ajaxRequest\<close> gives the response to \<open>JSON.parse\<close> when
  the declared \<open>dataType\<close> is \<open>json\<close> and the response is not empty, and resolves
  with the parsed value. In every other case it resolves with the raw response
  as \<open>data\<close>, whatever \<open>JSON.parse\<close> would do: the result is the same under any
  parser. For an empty body the \<open>data\<close> is the empty string.
\<close>

theorem ajaxRequest_parses_nonempty_json:
  assumes "network h (xhr_send url settings) = Load req"
  shows "(dataType settings = ''json'' \<and> response req \<noteq> [] \<longrightarrow>
            ajaxRequest h url settings =
              (case JSON_parse h (response req) of
                 None \<Rightarrow> Pending
               | Some parsed \<Rightarrow>
                   Fulfilled \<lparr>data = parsed, statusText = xhr_statusText req, xhr = req\<rparr>))
       \<and> (\<not> (dataType settings = ''json'' \<and> response req \<noteq> []) \<longrightarrow>
            ajaxRequest (h\<lparr>JSON_parse := parse\<rparr>) url settings =
              Fulfilled \<lparr>data = JString (response req), statusText = xhr_statusText req,
                         xhr = req\<rparr>)
       \<and> (response req = [] \<longrightarrow>
            ajaxRequest (h\<lparr>JSON_parse := parse\<rparr>) url settings =
              Fulfilled \<lparr>data = JString [], statusText = xhr_statusText req, xhr = req\<rparr>)"
proof (intro conjI impI)
  assume "dataType settings = ''json'' \<and> response req \<noteq> []"
  with assms show "ajaxRequest h url settings =
      (case JSON_parse h (response req) of
         None \<Rightarrow> Pending
       | Some parsed \<Rightarrow> Fulfilled \<lparr>data = parsed, statusText = xhr_statusText req, xhr = req\<rparr>)"
    by (simp add: ajaxRequest_def onload_def)
next
  assume "\<not> (dataType settings = ''json'' \<and> response req \<noteq> [])"
  with assms show "ajaxRequest (h\<lparr>JSON_parse := parse\<rparr>) url settings =
      Fulfilled \<lparr>data = JString (response req), statusText = xhr_statusText req, xhr = req\<rparr>"
    by (auto simp: ajaxRequest_def onload_def)
next
  assume "response req = []"
  with assms show "ajaxRequest (h\<lparr>JSON_parse := parse\<rparr>) url settings =
      Fulfilled \<lparr>data = JString [], statusText = xhr_statusText req, xhr = req\<rparr>"
    by (simp add: ajaxRequest_def onload_def)
qed

text \<open>
  A 204 response without a body to a request that declares \<open>json\<close>, under a parser
  that throws on every text, and a 200 response with a body.
\<close>

theorem ajaxRequest_parses_nonempty_json_witness:
  "network (answering (Load (loaded 204 ''No Content'' [])))
       (xhr_send ''api/contents/nb.ipynb''
          \<lparr>http_method = ''DELETE'', dataType = ''json'', contentType = None,
           settings_data = None\<rparr>)
     = Load (loaded 204 ''No Content'' [])
   \<and> response (loaded 204 ''No Content'' []) = []
   \<and> ajaxRequest ((answering (Load (loaded 204 ''No Content'' [])))\<lparr>JSON_parse := (\<lambda>text. None)\<rparr>)
       ''api/contents/nb.ipynb''
       \<lparr>http_method = ''DELETE'', dataType = ''json'', contentType = None, settings_data = None\<rparr>
     = Fulfilled \<lparr>data = JString [], statusText = ''No Content'',
                  xhr = loaded 204 ''No Content'' []\<rparr>
   \<and> response (loaded 200 ''OK'' ''{}'') \<noteq> []
   \<and> ajaxRequest (answering (Load (loaded 200 ''OK'' ''{}''))) ''api/contents/nb.ipynb''
       \<lparr>http_method = ''GET'', dataType = ''json'', contentType = None, settings_data = None\<rparr>
     = Fulfilled \<lparr>data = JObject [], statusText = ''OK'', xhr = loaded 200 ''OK'' ''{}''\<rparr>"
proof -
  let ?empty = "answering (Load (loaded 204 ''No Content'' []))"
  let ?full = "answering (Load (loaded 200 ''OK'' ''{}''))"
  let ?delete = "\<lparr>http_method = ''DELETE'', dataType = ''json'', contentType = None,
                  settings_data = None\<rparr>"
  let ?get = "\<lparr>http_method = ''GET'', dataType = ''json'', contentType = None, settings_data = None\<rparr>"
  have e: "network ?empty (xhr_send ''api/contents/nb.ipynb'' ?delete)
      = Load (loaded 204 ''No Content'' [])"
    by (simp add: answering_def)
  have f: "network ?full (xhr_send ''api/contents/nb.ipynb'' ?get) = Load (loaded 200 ''OK'' ''{}'')"
    by (simp add: answering_def)
  have r: "response (loaded 204 ''No Content'' []) = []" "response (loaded 200 ''OK'' ''{}'') \<noteq> []"
    by (simp_all add: loaded_def)
  from ajaxRequest_parses_nonempty_json [OF e, of "\<lambda>text. None"] r(1)
  have a: "ajaxRequest (?empty\<lparr>JSON_parse := (\<lambda>text. None)\<rparr>) ''api/contents/nb.ipynb'' ?delete
      = Fulfilled \<lparr>data = JString [], statusText = ''No Content'',
                   xhr = loaded 204 ''No Content'' []\<rparr>"
    by (simp add: loaded_def)
  from ajaxRequest_parses_nonempty_json [OF f] r(2)
  have b: "ajaxRequest ?full ''api/contents/nb.ipynb'' ?get
      = Fulfilled \<lparr>data = JObject [], statusText = ''OK'', xhr = loaded 200 ''OK'' ''{}''\<rparr>"
    by (simp add: JSON_parse_answering loaded_def)
  from a b e r show ?thesis
    by simp
qed

section \<open>Properties of PromiseDelegate\<close>

lemma run_Nil: "run d [] = d"
  by (simp add: run_def)

lemma run_Cons: "run d (a # acts) = run (act d a) acts"
  by (simp add: run_def)

lemma run_append: "run d (xs @ ys) = run (run d xs) ys"
  by (simp add: run_def)

text \<open>
  Before the first invocation nothing settles: observers queue up in the order
  they arrive, and a job of the host finds no thenable to report.
\<close>

lemma act_idle:
  assumes "idle d" and "\<not> invocation a"
  shows "act d a =
           d\<lparr>priv_promise := (priv_promise d)\<lparr>reactions :=
               reactions (priv_promise d) @ observers [a]\<rparr>\<rparr>"
  using assms
  by (cases a) (simp_all add: idle_def promise_observe_def thenable_reports_def)

lemma run_idle:
  "idle d \<Longrightarrow> list_all (\<lambda>a. \<not> invocation a) acts \<Longrightarrow>
   run d acts =
     d\<lparr>priv_promise := (priv_promise d)\<lparr>reactions :=
         reactions (priv_promise d) @ observers acts\<rparr>\<rparr>"
proof (induction acts arbitrary: d)
  case Nil
  then show ?case by (simp add: run_Nil)
next
  case (Cons a acts)
  define d' where "d' = act d a"
  have step: "d' = d\<lparr>priv_promise := (priv_promise d)\<lparr>reactions :=
               reactions (priv_promise d) @ observers [a]\<rparr>\<rparr>"
    unfolding d'_def using Cons.prems by (intro act_idle) simp_all
  have "idle d'"
    using Cons.prems(1) by (simp add: step idle_def)
  moreover have "list_all (\<lambda>a. \<not> invocation a) acts"
    using Cons.prems(2) by simp
  ultimately have "run d' acts =
     d'\<lparr>priv_promise := (priv_promise d')\<lparr>reactions :=
         reactions (priv_promise d') @ observers acts\<rparr>\<rparr>"
    by (rule Cons.IH)
  moreover have "run d (a # acts) = run d' acts"
    by (simp add: run_Cons d'_def)
  ultimately show ?case
    by (cases a) (simp_all add: step)
qed

text \<open>
  On a locked delegate \<open>resolve\<close>, \<open>reject\<close> and the job of a thenable change
  nothing, and an observer is told the outcome at once.
\<close>

lemma act_locked:
  assumes "locked d"
  shows "act d a =
           d\<lparr>priv_promise := (priv_promise d)\<lparr>notified :=
               notified (priv_promise d) @
               map (\<lambda>obs. (obs, state (priv_promise d))) (observers [a])\<rparr>\<rparr>"
  using assms
  by (cases a; cases "state (priv_promise d)")
     (simp_all add: locked_def resolve_def reject_def resolve_function_def reject_function_def
        promise_observe_def thenable_reports_def)

lemma run_locked:
  "locked d \<Longrightarrow>
   run d acts =
     d\<lparr>priv_promise := (priv_promise d)\<lparr>notified :=
         notified (priv_promise d) @
         map (\<lambda>obs. (obs, state (priv_promise d))) (observers acts)\<rparr>\<rparr>"
proof (induction acts arbitrary: d)
  case Nil
  then show ?case by (simp add: run_Nil)
next
  case (Cons a acts)
  define d' where "d' = act d a"
  have step: "d' = d\<lparr>priv_promise := (priv_promise d)\<lparr>notified :=
               notified (priv_promise d) @
               map (\<lambda>obs. (obs, state (priv_promise d))) (observers [a])\<rparr>\<rparr>"
    unfolding d'_def by (rule act_locked [OF Cons.prems])
  have "locked d'"
    using Cons.prems by (simp add: step locked_def)
  from Cons.IH [OF this] have "run d' acts =
     d'\<lparr>priv_promise := (priv_promise d')\<lparr>notified :=
         notified (priv_promise d') @
         map (\<lambda>obs. (obs, state (priv_promise d'))) (observers acts)\<rparr>\<rparr>" .
  moreover have "run d (a # acts) = run d' acts"
    by (simp add: run_Cons d'_def)
  ultimately show ?case
    by (cases a) (simp_all add: step)
qed

text \<open>
  While a delegate follows a thenable, \<open>resolve\<close> and \<open>reject\<close> change nothing and
  observers queue up. The first job of a thenable that reports settles the
  promise with the report and tells everyone who waited.
\<close>

lemma run_following:
  "following d report \<Longrightarrow>
   run d acts =
     (if report \<noteq> Pending \<and> Callback \<in> set acts
      then reported d report (observers acts)
      else waiting_for d (observers acts))"
proof (induction acts arbitrary: d)
  case Nil
  then show ?case by (simp add: run_Nil waiting_for_def)
next
  case (Cons a acts)
  note run_Cons [simp]
  show ?case
  proof (cases a)
    case (Resolve x)
    have same: "act d a = d"
      using Cons.prems by (simp add: Resolve following_def resolve_def resolve_function_def)
    from Cons.IH [OF Cons.prems] show ?thesis
      by (simp add: same) (simp add: Resolve)
  next
    case (Reject r)
    have same: "act d a = d"
      using Cons.prems by (simp add: Reject following_def reject_def reject_function_def)
    from Cons.IH [OF Cons.prems] show ?thesis
      by (simp add: same) (simp add: Reject)
  next
    case (Observe obs)
    have step: "act d a = waiting_for d [obs]"
      using Cons.prems by (simp add: Observe following_def promise_observe_def waiting_for_def)
    have "following (waiting_for d [obs]) report"
      using Cons.prems by (simp add: following_def waiting_for_def)
    from Cons.IH [OF this] show ?thesis
      by (simp add: step) (simp add: Observe waiting_for_def reported_def)
  next
    case Callback
    show ?thesis
    proof (cases "report = Pending")
      case True
      have same: "act d a = d"
        using Cons.prems True by (simp add: Callback following_def thenable_reports_def)
      from Cons.IH [OF Cons.prems] True show ?thesis
        by (simp add: same) (simp add: Callback)
    next
      case False
      have step: "act d a = reported d report []"
        using Cons.prems False
        by (cases report)
           (simp_all add: Callback following_def thenable_reports_def settle_def reported_def)
      have "locked (reported d report [])"
        using Cons.prems False by (simp add: following_def locked_def reported_def)
      from run_locked [OF this] False show ?thesis
        by (simp add: step) (simp add: Callback reported_def)
    qed
  qed
qed

text \<open>
  C8. A delegate settles at most once. Take any actions on a new delegate and
  split them at the first invocation of \<open>resolve\<close> or \<open>reject\<close>: no invocation
  \<open>before\<close> it, any actions \<open>later\<close>, among them further invocations and further
  observers. The first invocation alone decides the outcome: a value, a reason,
  or the report of the thenable it handed over. At the end the promise is
  either still pending, with every observer waiting and none told anything, or
  it holds that outcome, and then every observer, attached before or after the
  settlement, has been told that outcome once, in the order of attachment, and
  nothing else was delivered. It holds the outcome unless the first invocation
  handed over a thenable that has not reported. One more \<open>resolve\<close> or \<open>reject\<close>
  leaves the delegate as it is.
\<close>

theorem settled_once:
  fixes before later :: "('a, 'r, 'o) action list"
  assumes "list_all (\<lambda>a. \<not> invocation a) before" and "invocation first"
  shows "(let d = run new_PromiseDelegate (before @ first # later);
              everyone = observers before @ observers later in
            state (priv_promise d) = (if settles first later then outcome first else Pending)
          \<and> notified (priv_promise d) =
              (if settles first later then map (\<lambda>obs. (obs, outcome first)) everyone else [])
          \<and> reactions (priv_promise d) = (if settles first later then [] else everyone)
          \<and> resolve x d = d \<and> reject r d = d)"
proof -
  let ?new = "new_PromiseDelegate :: ('a, 'r, 'o) PromiseDelegate"
  define waiting where "waiting = run ?new before"
  define invoked where "invoked = act waiting first"
  define d where "d = run ?new (before @ first # later)"
  have "idle ?new"
    by (simp add: idle_def new_PromiseDelegate_def new_Promise_def)
  from run_idle [OF this assms(1)]
  have waiting: "waiting = ?new\<lparr>priv_promise := new_Promise\<lparr>reactions := observers before\<rparr>\<rparr>"
    by (simp add: waiting_def new_PromiseDelegate_def new_Promise_def)
  have d: "d = run invoked later"
    by (simp add: d_def run_append run_Cons invoked_def waiting_def)
  have main: "state (priv_promise d) = (if settles first later then outcome first else Pending)
      \<and> notified (priv_promise d) =
          (if settles first later
           then map (\<lambda>obs. (obs, outcome first)) (observers before @ observers later) else [])
      \<and> reactions (priv_promise d) =
          (if settles first later then [] else observers before @ observers later)
      \<and> (locked d \<or> (\<exists>report. following d report))"
  proof (cases "adopts first")
    case True
    then obtain report where first: "first = Resolve (Thenable report)"
      by (cases first rule: adopts.cases) simp_all
    have f: "following invoked report"
      by (simp add: invoked_def first waiting following_def resolve_def resolve_function_def
            new_PromiseDelegate_def new_Promise_def)
    have inv: "invoked = ?new\<lparr>priv_promise := \<lparr>state = Pending, alreadyResolved = True,
        adopted = Some report, reactions = observers before, notified = []\<rparr>\<rparr>"
      by (simp add: invoked_def first waiting resolve_def resolve_function_def
            new_PromiseDelegate_def new_Promise_def)
    show ?thesis
    proof (cases "report \<noteq> Pending \<and> Callback \<in> set later")
      case True
      then have s: "settles first later"
        by (simp add: settles_def first)
      have fin: "d = reported invoked report (observers later)"
        unfolding d run_following [OF f] using True by simp
      have "locked d"
        using True by (simp add: fin inv reported_def locked_def new_PromiseDelegate_def)
      then show ?thesis
        using s by (simp add: fin inv reported_def first)
    next
      case False
      then have s: "\<not> settles first later"
        by (auto simp: settles_def first)
      have fin: "d = waiting_for invoked (observers later)"
        unfolding d run_following [OF f] using False by auto
      have "following d report"
        by (simp add: fin inv waiting_for_def following_def new_PromiseDelegate_def)
      then show ?thesis
        using s by (auto simp: fin inv waiting_for_def)
    qed
  next
    case False
    with assms(2) have out: "outcome first \<noteq> Pending"
      by (cases first rule: outcome.cases) simp_all
    with False have s: "settles first later"
      by (simp add: settles_def)
    have inv: "invoked = ?new\<lparr>priv_promise := \<lparr>state = outcome first, alreadyResolved = True,
        adopted = None, reactions = [],
        notified = map (\<lambda>obs. (obs, outcome first)) (observers before)\<rparr>\<rparr>"
      using False assms(2)
      by (cases first rule: outcome.cases)
         (simp_all add: invoked_def waiting resolve_def reject_def resolve_function_def
            reject_function_def settle_def new_PromiseDelegate_def new_Promise_def)
    have l: "locked invoked"
      using out by (simp add: inv locked_def new_PromiseDelegate_def)
    have fin: "d = invoked\<lparr>priv_promise := (priv_promise invoked)\<lparr>notified :=
         notified (priv_promise invoked) @
         map (\<lambda>obs. (obs, state (priv_promise invoked))) (observers later)\<rparr>\<rparr>"
      unfolding d by (rule run_locked [OF l])
    have "locked d"
      using l by (simp add: fin locked_def)
    then show ?thesis
      using s by (simp add: fin inv)
  qed
  have noop: "resolve x d = d \<and> reject r d = d"
  proof -
    from main have "locked d \<or> (\<exists>report. following d report)"
      by simp
    then show ?thesis
    proof
      assume "locked d"
      from act_locked [OF this, of "Resolve x"] act_locked [OF this, of "Reject r"]
      show ?thesis by simp
    next
      assume "\<exists>report. following d report"
      then show ?thesis
        by (auto simp: following_def resolve_def reject_def resolve_function_def
              reject_function_def)
    qed
  qed
  from main noop show ?thesis
    unfolding Let_def d_def by simp
qed

text \<open>
  \<open>resolve\<close> with a promise that rejects with \<open>inner\<close>, then \<open>reject\<close> with \<open>late\<close>: the
  delegate ends rejected with \<open>inner\<close>, and the three observers, attached before
  the invocation, before the report and after it, are each told so once.
\<close>

theorem settled_once_witness:
  "list_all (\<lambda>a. \<not> invocation a) [Observe (1::nat), Callback :: (string, string, nat) action]
   \<and> invocation (Resolve (Thenable (Rejected ''inner'')) :: (string, string, nat) action)
   \<and> settles (Resolve (Thenable (Rejected ''inner'')) :: (string, string, nat) action)
        [Reject ''late'', Observe 2, Callback, Observe 3, Resolve (Value ''again'')]
   \<and> state (priv_promise (run new_PromiseDelegate
        ([Observe (1::nat), Callback] @ Resolve (Thenable (Rejected ''inner''))
          # [Reject ''late'', Observe 2, Callback, Observe 3, Resolve (Value ''again'')])))
     = (Rejected ''inner'' :: (string, string) promise)
   \<and> notified (priv_promise (run new_PromiseDelegate
        ([Observe (1::nat), Callback] @ Resolve (Thenable (Rejected ''inner''))
          # [Reject ''late'', Observe 2, Callback, Observe 3, Resolve (Value ''again'')])))
     = [(1, Rejected ''inner'' :: (string, string) promise), (2, Rejected ''inner''),
        (3, Rejected ''inner'')]"
proof -
  let ?before = "[Observe (1::nat), Callback :: (string, string, nat) action]"
  let ?first = "Resolve (Thenable (Rejected ''inner'')) :: (string, string, nat) action"
  let ?later = "[Reject ''late'', Observe 2, Callback, Observe 3, Resolve (Value ''again'')]
      :: (string, string, nat) action list"
  have b: "list_all (\<lambda>a. \<not> invocation a) ?before"
    by simp
  have i: "invocation ?first"
    by simp
  have s: "settles ?first ?later"
    by (simp add: settles_def)
  from settled_once [OF b i, where later = ?later] s b i show ?thesis
    by (simp add: Let_def)
qed

end
